theory Spec2Isabelle
  imports Main "HOL-Library.AList"
begin

section \<open>Violentengine.js: the proxy engine\<close>

text \<open>
  The engine is one request handler, \<open>engine (localReq, localRes)\<close>, that registers
  callbacks on the objects of the platform: the upstream request, the upstream response
  and the client request. The model keeps the objects the handler closes over in one
  record, returns it from \<open>engine\<close>, and runs each callback as a function on that record.
  The events the platform delivers are an input of the model (a list, in delivery order):
  which events the platform emits, and in which order, is not decided by the source.
\<close>

subsection \<open>Data\<close>

text \<open>A \<open>Buffer\<close> is a list of bytes (\<open>char\<close> is eight bits wide); a header object
  is a list of name and value pairs in insertion order, read with \<open>map_of\<close>, assigned
  with \<open>AList.update\<close> and deleted from with \<open>AList.delete\<close>. Property names are
  compared exactly, as the properties of an object are.\<close>

type_synonym buffer = string
type_synonym headers = "(string \<times> string) list"

text \<open>\<open>localReq\<close>: the fields of the client's request. The engine reads \<open>url\<close> and
  \<open>headers\<close>; \<open>http_method\<close> (the property \<open>method\<close>) and \<open>body\<close> are what the client sent beside them.\<close>

record local_request =
  http_method :: string
  url :: string
  headers :: headers
  body :: buffer

text \<open>\<open>remoteRes\<close>: the fields of the upstream response that the engine reads.\<close>

record remote_response =
  statusCode :: nat
  statusMessage :: string
  remote_headers :: headers

text \<open>\<open>localRes\<close> is kept as the list of the calls made on it, oldest first.\<close>

datatype res_op = WriteHead nat string headers | Write string | EndRes

text \<open>The object \<open>url.parse\<close> returns. It has no \<open>method\<close> and no \<open>headers\<close>
  property of its own.\<close>

record url_object =
  protocol :: "string option"
  host :: "string option"
  path :: "string option"

text \<open>\<open>options\<close>, as handed to \<open>request\<close>: the parsed URL with the \<open>headers\<close>
  property the engine assigns. \<open>options_method\<close> is the \<open>method\<close> property the transport
  reads: \<open>None\<close> is a property that was never assigned (the transport then uses its
  default).\<close>

record request_options =
  parsed :: url_object
  options_headers :: headers
  options_method :: "string option"

datatype transport = Http | Https

text \<open>The upstream request object: the module it was made with, its options, the
  chunks written to it before \<open>end\<close>, and whether \<open>end\<close> and \<open>abort\<close> were called.\<close>

record client_request =
  transport :: transport
  options :: request_options
  written :: "buffer list"
  ended :: bool
  aborted :: bool

text \<open>The variable \<open>data\<close> of the response callback: an array of chunks until the
  \<open>end\<close> handler rebinds it to the concatenated buffer.\<close>

datatype data_var = Chunks "buffer list" | Joined buffer

text \<open>What escapes a handler. Nothing catches it: the process-wide
  \<open>uncaughtException\<close> listener prints a banner and throws the error again, so each of
  these ends the process. \<open>UrlParseError\<close> is \<open>url.parse\<close> throwing, \<open>RequestRejected\<close>
  the \<open>request\<close> call throwing, \<open>HeadersAlreadySent\<close> is \<open>writeHead\<close> throwing on a
  response whose head was written before.\<close>

datatype fault =
    UnexpectedRequestResult
  | UnhandledErrorEvent
  | TypeError
  | UrlParseError
  | RequestRejected
  | HeadersAlreadySent

record state =
  localReq :: local_request
  localRes :: "res_op list"
  request :: "client_request option"
  remoteRes :: "remote_response option"
  data :: data_var
  unzip_queue :: "buffer list"

text \<open>The functions the engine calls and does not define: the two replaceable
  providers (each returns its result together with the header object as it left it, since
  it receives the object by reference), \<open>url.parse\<close> (\<open>None\<close> when it throws),
  \<open>zlib.unzip\<close> (\<open>None\<close> is the callback's \<open>err\<close>), \<open>Buffer.toString\<close>, and
  \<open>request_throws\<close>: whether the \<open>request\<close> call of a module throws on options, for a
  reason other than their protocol.\<close>

record env =
  requestPatchingProvider :: "headers \<Rightarrow> string \<Rightarrow> int \<times> headers"
  responsePatchingProvider :: "headers \<Rightarrow> string \<Rightarrow> string \<Rightarrow> string \<times> headers"
  url_parse :: "string \<Rightarrow> url_object option"
  request_throws :: "transport \<Rightarrow> request_options \<Rightarrow> bool"
  unzip :: "buffer \<Rightarrow> buffer option"
  toString :: "buffer \<Rightarrow> string"

subsection \<open>exports.requestResult\<close>

definition Allow :: int where "Allow = 0"
definition Empty :: int where "Empty = 1"
definition Deny :: int where "Deny = 2"
definition Redirect :: int where "Redirect = 3"

subsection \<open>The calls on the client response\<close>

text \<open>\<open>writeHead\<close> throws when a head was written to the response before; otherwise
  the three calls append to the list. Every listener of the engine starts with
  \<open>writeHead\<close>, so \<open>write\<close> and \<open>end\<close> are only reached on a response it opened.\<close>

fun is_head :: "res_op \<Rightarrow> bool" where
  "is_head (WriteHead c m h) = True"
| "is_head (Write b) = False"
| "is_head EndRes = False"

definition headersSent :: "res_op list \<Rightarrow> bool" where
  "headersSent ops = list_ex is_head ops"

definition writeHead :: "nat \<Rightarrow> string \<Rightarrow> headers \<Rightarrow> res_op list \<Rightarrow> fault + res_op list" where
  "writeHead c m h ops =
     (if headersSent ops then Inl HeadersAlreadySent else Inr (ops @ [WriteHead c m h]))"

definition write_body :: "string \<Rightarrow> res_op list \<Rightarrow> res_op list" where
  "write_body b ops = ops @ [Write b]"

definition end_response :: "res_op list \<Rightarrow> res_op list" where
  "end_response ops = ops @ [EndRes]"

definition startsWith :: "string \<Rightarrow> string \<Rightarrow> bool" where
  "startsWith s p = (take (length p) s = p)"

definition plain_headers :: headers where
  "plain_headers = [(''Content-Type'', ''text/plain''), (''Server'', ''Violentproxy Proxy Server'')]"

subsection \<open>finalize\<close>

definition finalize :: "env \<Rightarrow> state \<Rightarrow> remote_response \<Rightarrow> string \<Rightarrow> string \<Rightarrow> fault + state" where
  "finalize e s r u responseText =
     (let (text, h) = responsePatchingProvider e (remote_headers r) u responseText;
          h1 = AList.update ''content-encoding'' ''identity'' h;
          h2 = AList.delete ''content-length'' h1
      in case writeHead (statusCode r) (statusMessage r) h2 (localRes s) of
           Inl f \<Rightarrow> Inl f
         | Inr ops \<Rightarrow>
             Inr (s\<lparr>remoteRes := Some (r\<lparr>remote_headers := h2\<rparr>),
                    localRes := end_response (write_body text ops)\<rparr>))"

subsection \<open>engine\<close>

text \<open>The call \<open>(https or http).request(options, callback)\<close>, followed by
  \<open>request.end()\<close>: nothing is written to the request before it is ended. The header
  object of \<open>options\<close> is the one of \<open>localReq\<close>, so it is read here, after the request
  provider and the engine have changed it. The call throws when \<open>options.protocol\<close> is
  set and is not the protocol of the module called; then neither \<open>request.end()\<close> nor
  the registration of the \<open>aborted\<close> listener on \<open>localReq\<close> is reached.\<close>

fun module_protocol :: "transport \<Rightarrow> string" where
  "module_protocol Http = ''http:''"
| "module_protocol Https = ''https:''"

definition protocol_accepted :: "transport \<Rightarrow> string option \<Rightarrow> bool" where
  "protocol_accepted t p =
     (case p of None \<Rightarrow> True | Some x \<Rightarrow> x = [] \<or> x = module_protocol t)"

definition proxy_request :: "env \<Rightarrow> url_object \<Rightarrow> local_request \<Rightarrow> fault + client_request" where
  "proxy_request e opts lr =
     (let t = (if protocol opts = Some ''https:'' then Https else Http);
          opt = \<lparr>parsed = opts, options_headers = headers lr, options_method = None\<rparr>
      in if protocol_accepted t (protocol opts) then
           (if request_throws e t opt then Inl RequestRejected
            else Inr \<lparr>transport = t, options = opt, written = [], ended = True, aborted = False\<rparr>)
         else Inl RequestRejected)"

text \<open>The handler, called with a fresh client response. \<open>url.parse\<close> runs first. In the
  \<open>switch\<close>, \<open>Allow\<close>, \<open>Deny\<close> and \<open>Redirect\<close> leave it by \<open>break\<close> and go on to the
  upstream request (\<open>proxied\<close> below), \<open>Empty\<close> returns, and any other result throws.\<close>

definition engine :: "env \<Rightarrow> local_request \<Rightarrow> fault + state" where
  "engine e lr =
     (case url_parse e (url lr) of
        None \<Rightarrow> Inl UrlParseError
      | Some opts \<Rightarrow>
          if \<not> startsWith (url lr) ''http'' then
            (case writeHead 400 ''Bad Request'' plain_headers [] of
               Inl f \<Rightarrow> Inl f
             | Inr ops \<Rightarrow>
                 Inr \<lparr>localReq = lr,
                      localRes = end_response (write_body
                        ''The request that Violentproxy received is not valid because it would cause internal request loop.''
                        ops),
                      request = None, remoteRes = None, data = Chunks [], unzip_queue = []\<rparr>)
          else
            (let (result, h) = requestPatchingProvider e (headers lr) (url lr);
                 lr' = lr\<lparr>headers := AList.update ''accept-encoding'' ''gzip, deflate'' h\<rparr>;
                 proxied =
                   (case proxy_request e opts lr' of
                      Inl f \<Rightarrow> Inl f
                    | Inr rq \<Rightarrow>
                        Inr \<lparr>localReq = lr', localRes = [], request = Some rq,
                             remoteRes = None, data = Chunks [], unzip_queue = []\<rparr>)
             in if result = Allow then proxied
                else if result = Empty then
                  (case writeHead 200 ''OK'' plain_headers [] of
                     Inl f \<Rightarrow> Inl f
                   | Inr ops \<Rightarrow>
                       Inr \<lparr>localReq = lr', localRes = end_response ops, request = None,
                            remoteRes = None, data = Chunks [], unzip_queue = []\<rparr>)
                else if result = Deny then proxied
                else if result = Redirect then proxied
                else Inl UnexpectedRequestResult))"

subsection \<open>The callbacks\<close>

text \<open>The callback handed to \<open>request\<close>: it binds \<open>data\<close> to an empty array and
  registers the four listeners on \<open>remoteRes\<close>.\<close>

definition on_response :: "remote_response \<Rightarrow> state \<Rightarrow> state" where
  "on_response r s = s\<lparr>remoteRes := Some r, data := Chunks []\<rparr>"

text \<open>\<open>data.push(chunk)\<close>; a buffer has no \<open>push\<close>.\<close>

definition on_data :: "buffer \<Rightarrow> state \<Rightarrow> fault + state" where
  "on_data chunk s =
     (case data s of
        Chunks cs \<Rightarrow> Inr (s\<lparr>data := Chunks (cs @ [chunk])\<rparr>)
      | Joined b \<Rightarrow> Inl TypeError)"

definition compressed :: "remote_response \<Rightarrow> bool" where
  "compressed r =
     (map_of (remote_headers r) ''content-encoding'' = Some ''gzip'' \<or>
      map_of (remote_headers r) ''content-encoding'' = Some ''deflate'')"

text \<open>The \<open>end\<close> listener. \<open>Buffer.concat\<close> accepts an array only. \<open>zlib.unzip\<close>
  calls back later: the buffer waits in \<open>unzip_queue\<close> until then.\<close>

definition on_end :: "env \<Rightarrow> remote_response \<Rightarrow> state \<Rightarrow> fault + state" where
  "on_end e r s =
     (case data s of
        Joined b \<Rightarrow> Inl TypeError
      | Chunks cs \<Rightarrow>
          (let d = concat cs; s1 = s\<lparr>data := Joined d\<rparr>
           in if compressed r then Inr (s1\<lparr>unzip_queue := unzip_queue s1 @ [d]\<rparr>)
              else finalize e s1 r (url (localReq s1)) (toString e d)))"

text \<open>The callback of \<open>zlib.unzip\<close>, for the buffer \<open>d\<close> it was started on.\<close>

definition unzip_callback :: "env \<Rightarrow> remote_response \<Rightarrow> buffer \<Rightarrow> state \<Rightarrow> fault + state" where
  "unzip_callback e r d s =
     (case unzip e d of
        None \<Rightarrow>
          (case writeHead 500 ''Data Stream Parse Error'' plain_headers (localRes s) of
             Inl f \<Rightarrow> Inl f
           | Inr ops \<Rightarrow>
               Inr (s\<lparr>localRes := end_response (write_body
                 ''Violentproxy could not complete your request because there is a data stream parsing error.''
                 ops)\<rparr>))
      | Some result \<Rightarrow> finalize e s r (url (localReq s)) (toString e result))"

definition on_error :: "state \<Rightarrow> fault + state" where
  "on_error s =
     (case writeHead 500 ''Data Stream Read Error'' plain_headers (localRes s) of
        Inl f \<Rightarrow> Inl f
      | Inr ops \<Rightarrow>
          Inr (s\<lparr>localRes := end_response (write_body
            ''Violentproxy could not complete your request because there is a data stream read error.''
            ops)\<rparr>))"

definition on_aborted :: "state \<Rightarrow> fault + state" where
  "on_aborted s =
     (case writeHead 502 ''Broken Pipe / Remote Server Disconnected'' plain_headers (localRes s) of
        Inl f \<Rightarrow> Inl f
      | Inr ops \<Rightarrow>
          Inr (s\<lparr>localRes := end_response (write_body
            ''Violentproxy could not complete your request because remote server closed the connection.''
            ops)\<rparr>))"

text \<open>The listener on \<open>localReq\<close>: \<open>request.abort()\<close>.\<close>

definition on_local_aborted :: "client_request \<Rightarrow> state \<Rightarrow> state" where
  "on_local_aborted rq s = s\<lparr>request := Some (rq\<lparr>aborted := True\<rparr>)\<rparr>"

subsection \<open>Events\<close>

text \<open>
  \<open>Response\<close> is the response callback being called; \<open>RemoteData\<close>, \<open>RemoteEnd\<close>,
  \<open>RemoteError\<close> and \<open>RemoteAborted\<close> are the events of \<open>remoteRes\<close>; \<open>UnzipDone\<close> is
  \<open>zlib.unzip\<close> calling back for the oldest waiting buffer; \<open>LocalAborted\<close> is the
  \<open>aborted\<close> event of \<open>localReq\<close>; \<open>RequestError\<close> is the \<open>error\<close> event of the upstream
  request object: the connect failed, or the connection was closed before the head of the
  response arrived.

  An event whose listener was never registered changes nothing, with one exception: the
  engine registers no \<open>error\<close> listener on the upstream request, and an \<open>error\<close> event
  without a listener is thrown by the emitter. The response callback is registered once.
\<close>

datatype event =
    Response remote_response
  | RemoteData buffer
  | RemoteEnd
  | RemoteError
  | RemoteAborted
  | UnzipDone
  | LocalAborted
  | RequestError

definition dispatch :: "env \<Rightarrow> event \<Rightarrow> state \<Rightarrow> fault + state" where
  "dispatch e ev s =
     (case ev of
        Response r \<Rightarrow>
          (case request s of
             None \<Rightarrow> Inr s
           | Some rq \<Rightarrow> (case remoteRes s of None \<Rightarrow> Inr (on_response r s) | Some r0 \<Rightarrow> Inr s))
      | RemoteData chunk \<Rightarrow>
          (case remoteRes s of None \<Rightarrow> Inr s | Some r \<Rightarrow> on_data chunk s)
      | RemoteEnd \<Rightarrow>
          (case remoteRes s of None \<Rightarrow> Inr s | Some r \<Rightarrow> on_end e r s)
      | RemoteError \<Rightarrow>
          (case remoteRes s of None \<Rightarrow> Inr s | Some r \<Rightarrow> on_error s)
      | RemoteAborted \<Rightarrow>
          (case remoteRes s of None \<Rightarrow> Inr s | Some r \<Rightarrow> on_aborted s)
      | UnzipDone \<Rightarrow>
          (case remoteRes s of
             None \<Rightarrow> Inr s
           | Some r \<Rightarrow>
               (case unzip_queue s of
                  [] \<Rightarrow> Inr s
                | d # ds \<Rightarrow> unzip_callback e r d (s\<lparr>unzip_queue := ds\<rparr>)))
      | LocalAborted \<Rightarrow>
          (case request s of None \<Rightarrow> Inr s | Some rq \<Rightarrow> Inr (on_local_aborted rq s))
      | RequestError \<Rightarrow>
          (case request s of None \<Rightarrow> Inr s | Some rq \<Rightarrow> Inl UnhandledErrorEvent))"

fun run :: "env \<Rightarrow> state \<Rightarrow> event list \<Rightarrow> fault + state" where
  "run e s [] = Inr s"
| "run e s (ev # evs) =
     (case dispatch e ev s of Inl f \<Rightarrow> Inl f | Inr s' \<Rightarrow> run e s' evs)"

text \<open>The whole life of one request: the handler, then the events.\<close>

definition handle :: "env \<Rightarrow> local_request \<Rightarrow> event list \<Rightarrow> fault + state" where
  "handle e lr evs = (case engine e lr of Inl f \<Rightarrow> Inl f | Inr s \<Rightarrow> run e s evs)"

text \<open>What an observer of one request sees: the calls made on \<open>localRes\<close> and the
  upstream request, when the process survived.\<close>

definition client_log :: "fault + state \<Rightarrow> res_op list option" where
  "client_log x = (case x of Inl f \<Rightarrow> None | Inr s \<Rightarrow> Some (localRes s))"

definition upstream :: "fault + state \<Rightarrow> client_request option" where
  "upstream x = (case x of Inl f \<Rightarrow> None | Inr s \<Rightarrow> request s)"

text \<open>The buffers handed to \<open>zlib.unzip\<close> whose callback is still to come.\<close>

definition pending_unzip :: "fault + state \<Rightarrow> buffer list option" where
  "pending_unzip x = (case x of Inl f \<Rightarrow> None | Inr s \<Rightarrow> Some (unzip_queue s))"

subsection \<open>Request targets and absolute URLs\<close>

text \<open>The engine is the request listener of the HTTP server and sees the targets the
  server's parser lets through: a target that starts with \<open>/\<close> or with \<open>*\<close>, or letters
  followed by \<open>://\<close>.\<close>

definition letter :: "char \<Rightarrow> bool" where
  "letter c = (c \<in> set ''abcdefghijklmnopqrstuvwxyzABCDEFGHIJKLMNOPQRSTUVWXYZ'')"




subsection \<open>Header names without case\<close>

text \<open>The specification's header mapping has case-insensitive keys, where the engine
  names the properties of an object. For the comparison of the two, \<open>spec_has_header\<close>
  follows the specification: a header is present when some name of the object equals it up
  to the case of its letters.\<close>

definition lower :: "char \<Rightarrow> char" where
  "lower c =
     (case map_of (zip ''ABCDEFGHIJKLMNOPQRSTUVWXYZ'' ''abcdefghijklmnopqrstuvwxyz'') c of
        None \<Rightarrow> c
      | Some d \<Rightarrow> d)"

definition spec_has_header :: "string \<Rightarrow> headers \<Rightarrow> bool" where
  "spec_has_header name hs = (map lower name \<in> set (map (\<lambda>p. map lower (fst p)) hs))"

subsection \<open>The default providers\<close>

definition default_requestPatchingProvider :: "headers \<Rightarrow> string \<Rightarrow> int \<times> headers" where
  "default_requestPatchingProvider h u = (Allow, h)"

text \<open>The default response provider replaces the first match of
  \<open>/(<head[^>]*>)/i\<close> by the match followed by a script element: the leftmost place
  where the five characters \<open><head\<close> stand, in either case, with a \<open>>\<close> somewhere
  after them; the match ends at the first such \<open>>\<close>.\<close>

definition hello_script :: string where
  "hello_script =
     ''<script>console.log('' @ [CHR 0x22] @ ''Hello from Violentproxy :)'' @ [CHR 0x22] @ '');</script>''"

definition fold_case :: "char \<Rightarrow> char" where
  "fold_case c =
     (if c = CHR ''H'' then CHR ''h'' else if c = CHR ''E'' then CHR ''e''
      else if c = CHR ''A'' then CHR ''a'' else if c = CHR ''D'' then CHR ''d'' else c)"

definition head_tag :: "string \<Rightarrow> bool" where
  "head_tag s = (map fold_case (take 5 s) = ''<head'')"

fun inject_script :: "string \<Rightarrow> string" where
  "inject_script [] = []"
| "inject_script (c # cs) =
     (if head_tag (c # cs) \<and> CHR ''>'' \<in> set (drop 4 cs) then
        take 5 (c # cs) @ takeWhile (\<lambda>x. x \<noteq> CHR ''>'') (drop 4 cs) @ ''>'' @ hello_script
          @ tl (dropWhile (\<lambda>x. x \<noteq> CHR ''>'') (drop 4 cs))
      else c # inject_script cs)"

definition default_responsePatchingProvider :: "headers \<Rightarrow> string \<Rightarrow> string \<Rightarrow> string \<times> headers" where
  "default_responsePatchingProvider h u text = (inject_script text, h)"

subsection \<open>An environment to evaluate in\<close>

text \<open>Stand-ins for the platform's functions, used to evaluate the engine on examples:
  a parser that throws on a target with an opening and no closing bracket and otherwise
  reads the protocol (letters and a colon) off the front of the target, a \<open>request\<close>
  call that throws on a wrong protocol only, a decompressor that accepts exactly the
  buffers starting with \<open>Z:\<close> and returns the rest, and bytes read as text one to one.
  The providers are the default ones.\<close>

definition sample_url_parse :: "string \<Rightarrow> url_object option" where
  "sample_url_parse u =
     (if CHR ''['' \<in> set u \<and> CHR '']'' \<notin> set u then None
      else Some \<lparr>protocol =
                   (if takeWhile letter u \<noteq> [] \<and> startsWith (dropWhile letter u) '':''
                    then Some (takeWhile letter u @ '':'') else None),
                 host = None, path = Some u\<rparr>)"

definition sample_unzip :: "buffer \<Rightarrow> buffer option" where
  "sample_unzip d = (if startsWith d ''Z:'' then Some (drop 2 d) else None)"

definition sample_env :: env where
  "sample_env =
     \<lparr>requestPatchingProvider = default_requestPatchingProvider,
      responsePatchingProvider = default_responsePatchingProvider,
      url_parse = sample_url_parse,
      request_throws = (\<lambda>t opt. False),
      unzip = sample_unzip,
      toString = (\<lambda>b. b)\<rparr>"

text \<open>The same, with a request provider that answers \<open>Empty\<close>.\<close>

definition blocking_env :: env where
  "blocking_env = sample_env\<lparr>requestPatchingProvider := (\<lambda>h u. (Empty, h))\<rparr>"

text \<open>The same, with a response provider that writes the two header names the engine
  owns, and one of its own; and with one that writes the two names with capital
  letters.\<close>

definition tampering_env :: env where
  "tampering_env =
     sample_env\<lparr>responsePatchingProvider :=
       (\<lambda>h u t. (t, AList.update ''x-patched'' ''yes''
                      (AList.update ''content-length'' ''1''
                        (AList.update ''content-encoding'' ''br'' h))))\<rparr>"

definition sample_get :: local_request where
  "sample_get =
     \<lparr>http_method = ''GET'', url = ''http://example.test/'', headers = [(''host'', ''example.test'')], body = []\<rparr>"

definition sample_post :: local_request where
  "sample_post =
     \<lparr>http_method = ''POST'', url = ''https://example.test/form'',
      headers = [(''host'', ''example.test''), (''accept-encoding'', ''br'')], body = ''a=1''\<rparr>"

definition sample_ok :: remote_response where
  "sample_ok =
     \<lparr>statusCode = 200, statusMessage = ''OK'',
      remote_headers = [(''content-type'', ''text/html''), (''content-length'', ''25'')]\<rparr>"

definition sample_gzip :: remote_response where
  "sample_gzip =
     \<lparr>statusCode = 200, statusMessage = ''OK'',
      remote_headers = [(''content-encoding'', ''gzip''), (''content-length'', ''27'')]\<rparr>"

definition sample_deflate :: remote_response where
  "sample_deflate =
     \<lparr>statusCode = 200, statusMessage = ''OK'',
      remote_headers = [(''content-encoding'', ''deflate''), (''content-length'', ''27'')]\<rparr>"

definition capitals_env :: env where
  "capitals_env =
     sample_env\<lparr>responsePatchingProvider :=
       (\<lambda>h u t. (t, AList.update ''Content-Length'' ''1''
                      (AList.update ''Content-Encoding'' ''gzip'' h)))\<rparr>"


definition sample_httpx :: local_request where
  "sample_httpx =
     \<lparr>http_method = ''GET'', url = ''httpx://example.test/'', headers = [(''host'', ''example.test'')], body = []\<rparr>"

section \<open>Lemmas on runs\<close>

lemmas request_defs = Allow_def Empty_def Deny_def Redirect_def startsWith_def

lemmas response_defs = writeHead_def headersSent_def write_body_def end_response_def plain_headers_def

lemmas sample_defs = sample_env_def sample_get_def sample_ok_def sample_url_parse_def sample_unzip_def
  default_requestPatchingProvider_def default_responsePatchingProvider_def letter_def

lemmas engine_defs = handle_def engine_def proxy_request_def protocol_accepted_def dispatch_def
  on_response_def on_data_def on_end_def unzip_callback_def on_error_def on_aborted_def
  on_local_aborted_def finalize_def compressed_def Let_def

lemmas observer_defs = client_log_def upstream_def

lemma run_append:
  "run e s (xs @ ys) = (case run e s xs of Inl f \<Rightarrow> Inl f | Inr s' \<Rightarrow> run e s' ys)"
  by (induction xs arbitrary: s) (auto split: sum.splits)

lemma run_data:
  "remoteRes s = Some r \<Longrightarrow> data s = Chunks cs \<Longrightarrow>
   run e s (map RemoteData chunks) = Inr (s\<lparr>data := Chunks (cs @ chunks)\<rparr>)"
proof (induction chunks arbitrary: s cs)
  case Nil
  then show ?case by simp
next
  case (Cons c chunks)
  have step: "dispatch e (RemoteData c) s = Inr (s\<lparr>data := Chunks (cs @ [c])\<rparr>)"
    using Cons.prems by (simp add: dispatch_def on_data_def)
  have "run e (s\<lparr>data := Chunks (cs @ [c])\<rparr>) (map RemoteData chunks)
          = Inr (s\<lparr>data := Chunks (cs @ [c])\<rparr>\<lparr>data := Chunks ((cs @ [c]) @ chunks)\<rparr>)"
    by (rule Cons.IH) (simp_all add: Cons.prems)
  with step show ?case by simp
qed

lemma run_idle:
  "request s = None \<Longrightarrow> remoteRes s = None \<Longrightarrow> run e s evs = Inr s"
proof (induction evs)
  case Nil
  then show ?case by simp
next
  case (Cons ev evs)
  have "dispatch e ev s = Inr s"
    using Cons.prems by (cases ev) (simp_all add: dispatch_def)
  with Cons show ?case by simp
qed

text \<open>What the handler leaves behind when it has made the upstream request.\<close>

lemma engine_proxying:
  assumes "engine e lr = Inr s" and "request s = Some rq"
  shows "remoteRes s = None" "localRes s = []" "data s = Chunks []" "unzip_queue s = []"
    "url (localReq s) = url lr"
  using assms
  by (auto simp: engine_def Let_def response_defs
      split: option.splits if_splits prod.splits sum.splits)

lemma upstream_engine:
  assumes "upstream (engine e lr) = Some rq"
  obtains s where "engine e lr = Inr s" and "request s = Some rq"
  using assms by (auto simp: upstream_def split: sum.splits)

lemma run_body:
  assumes "engine e lr = Inr s" and "request s = Some rq"
  shows "run e s (Response r # map RemoteData chunks) = Inr (s\<lparr>remoteRes := Some r, data := Chunks chunks\<rparr>)"
proof -
  have "dispatch e (Response r) s = Inr (s\<lparr>remoteRes := Some r, data := Chunks []\<rparr>)"
    using engine_proxying(1) [OF assms] assms(2) by (simp add: dispatch_def on_response_def)
  moreover have "run e (s\<lparr>remoteRes := Some r, data := Chunks []\<rparr>) (map RemoteData chunks)
      = Inr (s\<lparr>remoteRes := Some r, data := Chunks []\<rparr>\<lparr>data := Chunks ([] @ chunks)\<rparr>)"
    by (rule run_data) simp_all
  ultimately show ?thesis by simp
qed

text \<open>The state once the response callback and the data events have run.\<close>

lemma handle_body:
  assumes "engine e lr = Inr s" and "request s = Some rq"
  shows "handle e lr (Response r # map RemoteData chunks @ evs)
           = run e (s\<lparr>remoteRes := Some r, data := Chunks chunks\<rparr>) evs"
proof -
  have "run e s ((Response r # map RemoteData chunks) @ evs)
          = run e (s\<lparr>remoteRes := Some r, data := Chunks chunks\<rparr>) evs"
    unfolding run_append run_body [OF assms] by simp
  then show ?thesis by (simp add: handle_def assms(1))
qed

lemma handle_unzipped:
  assumes "engine e lr = Inr s" and "request s = Some rq" and "compressed r"
  shows "handle e lr (Response r # map RemoteData chunks @ [RemoteEnd])
           = Inr (s\<lparr>remoteRes := Some r, data := Joined (concat chunks), unzip_queue := [concat chunks]\<rparr>)"
    and "handle e lr (Response r # map RemoteData chunks @ [RemoteEnd, UnzipDone])
           = unzip_callback e r (concat chunks)
                (s\<lparr>remoteRes := Some r, data := Joined (concat chunks), unzip_queue := []\<rparr>)"
  using assms(3) engine_proxying(4) [OF assms(1,2)]
  by (simp_all add: handle_body [OF assms(1,2)] dispatch_def on_end_def Let_def split: sum.splits)

text \<open>Once a head was written, a listener either leaves the client response as it is or
  ends the process: nothing is ever appended to a response that was written.\<close>

lemma dispatch_after_response:
  assumes "headersSent (localRes s)" and "dispatch e ev s = Inr s'"
  shows "localRes s' = localRes s"
  using assms
  by (cases ev)
    (auto simp: dispatch_def on_response_def on_data_def on_end_def unzip_callback_def on_error_def
      on_aborted_def on_local_aborted_def finalize_def writeHead_def Let_def
      split: option.splits list.splits data_var.splits if_splits prod.splits sum.splits)

lemma run_after_response:
  "headersSent (localRes s) \<Longrightarrow> run e s evs = Inr s' \<Longrightarrow> localRes s' = localRes s"
proof (induction evs arbitrary: s)
  case Nil
  then show ?case by simp
next
  case (Cons ev evs)
  from Cons.prems(2) obtain s1 where s1: "dispatch e ev s = Inr s1" "run e s1 evs = Inr s'"
    by (auto split: sum.splits)
  have same: "localRes s1 = localRes s"
    by (rule dispatch_after_response [OF Cons.prems(1) s1(1)])
  then have "headersSent (localRes s1)" using Cons.prems(1) by simp
  from Cons.IH [OF this s1(2)] same show ?case by simp
qed


section \<open>An error on the upstream request\<close>

text \<open>
  Claim C2 at its failing input. The engine registers listeners for \<open>error\<close> and
  \<open>aborted\<close> on the upstream response, and none on the upstream request. When the upstream
  request signals \<open>error\<close> (the connect failed), the error is thrown out of the emitter,
  the process ends, and the client response is never written.
\<close>

theorem connect_failure_ends_process:
  "handle sample_env sample_get [RequestError] = Inl UnhandledErrorEvent
   \<and> client_log (handle sample_env sample_get [RequestError]) = None"
  by (simp add: engine_defs sample_defs request_defs observer_defs)

section \<open>A compressed upstream response\<close>



section \<open>The client disconnects\<close>

text \<open>
  Claim C5, as amended. When the client disconnects while the upstream request is in
  flight (before the response callback, or after it and any number of data chunks),
  \<open>abort\<close> is called on the upstream request and, up to and including the disconnect,
  no call has been made on the client response.
\<close>

theorem client_disconnect_cancels:
  assumes "upstream (engine e lr) = Some rq"
    and "pre = [] \<or> pre = Response r # map RemoteData chunks"
  shows "upstream (handle e lr (pre @ [LocalAborted])) = Some (rq\<lparr>aborted := True\<rparr>)
       \<and> client_log (handle e lr (pre @ [LocalAborted])) = Some []"
proof -
  from assms(1) obtain s where s: "engine e lr = Inr s" "request s = Some rq"
    by (rule upstream_engine)
  note empty = engine_proxying(2) [OF s]
  from assms(2) show ?thesis
  proof
    assume "pre = []"
    then show ?thesis
      using s empty by (simp add: handle_def dispatch_def on_local_aborted_def observer_defs)
  next
    assume "pre = Response r # map RemoteData chunks"
    then show ?thesis
      using s empty
      by (simp add: handle_body [OF s] dispatch_def on_local_aborted_def observer_defs)
  qed
qed

theorem client_disconnect_cancels_witness:
  "upstream (engine sample_env sample_get) =
     Some \<lparr>transport = Http,
           options = \<lparr>parsed = \<lparr>protocol = Some ''http:'', host = None, path = Some ''http://example.test/''\<rparr>,
                      options_headers = [(''host'', ''example.test''), (''accept-encoding'', ''gzip, deflate'')],
                      options_method = None\<rparr>,
           written = [], ended = True, aborted = False\<rparr>
   \<and> map_option aborted (upstream (handle sample_env sample_get
        ((Response sample_ok # map RemoteData [''<html>'']) @ [LocalAborted]))) = Some True
   \<and> client_log (handle sample_env sample_get
        ((Response sample_ok # map RemoteData [''<html>'']) @ [LocalAborted])) = Some []"
proof -
  have h: "upstream (engine sample_env sample_get) =
     Some \<lparr>transport = Http,
           options = \<lparr>parsed = \<lparr>protocol = Some ''http:'', host = None, path = Some ''http://example.test/''\<rparr>,
                      options_headers = [(''host'', ''example.test''), (''accept-encoding'', ''gzip, deflate'')],
                      options_method = None\<rparr>,
           written = [], ended = True, aborted = False\<rparr>"
    by (simp add: engine_defs sample_defs request_defs observer_defs)
  from client_disconnect_cancels [OF h, of "Response sample_ok # map RemoteData [''<html>'']" sample_ok "[''<html>'']"] h
  show ?thesis by simp
qed

text \<open>
  Claim C5 as stated fails: the \<open>aborted\<close> listener of the upstream response does not
  look at the client connection. After a disconnect of the client has cancelled the
  upstream request, the \<open>aborted\<close> event of the upstream response still makes the engine
  write its 502 response to the client response.
\<close>

theorem disconnect_then_abort_writes:
  "map_option aborted (upstream (handle sample_env sample_get [Response sample_ok, LocalAborted])) = Some True
   \<and> client_log (handle sample_env sample_get [Response sample_ok, LocalAborted, RemoteAborted]) =
       Some [WriteHead 502 ''Broken Pipe / Remote Server Disconnected''
               [(''Content-Type'', ''text/plain''), (''Server'', ''Violentproxy Proxy Server'')],
             Write ''Violentproxy could not complete your request because remote server closed the connection.'',
             EndRes]"
  by (simp add: engine_defs sample_defs request_defs observer_defs response_defs)

section \<open>The request provider answers Empty\<close>

text \<open>
  Claim C8. When the request provider is consulted (\<open>url.parse\<close> returned and the target
  passed the test on its first characters) and its result is \<open>Empty\<close>, the calls on the
  client response are exactly one head with status 200, reason "OK" and Content-Type
  text/plain, and one end, with no body between them; no upstream request exists, whatever
  events follow.
\<close>

theorem empty_outcome_200:
  assumes "url_parse e (url lr) \<noteq> None"
    and "startsWith (url lr) ''http''"
    and "fst (requestPatchingProvider e (headers lr) (url lr)) = Empty"
  shows "client_log (handle e lr evs) =
           Some [WriteHead 200 ''OK''
                   [(''Content-Type'', ''text/plain''), (''Server'', ''Violentproxy Proxy Server'')],
                 EndRes]
       \<and> upstream (handle e lr evs) = None"
proof -
  obtain h where p: "requestPatchingProvider e (headers lr) (url lr) = (Empty, h)"
    using assms(3) by (cases "requestPatchingProvider e (headers lr) (url lr)") simp
  define s where "s = \<lparr>localReq = lr\<lparr>headers := AList.update ''accept-encoding'' ''gzip, deflate'' h\<rparr>,
    localRes = [WriteHead 200 ''OK'' plain_headers, EndRes], request = None, remoteRes = None,
    data = Chunks [], unzip_queue = []\<rparr>"
  have eng: "engine e lr = Inr s"
    using assms(1,2)
    by (auto simp: engine_def p s_def Allow_def Empty_def writeHead_def headersSent_def end_response_def)
  have "run e s evs = Inr s"
    by (rule run_idle) (simp_all add: s_def)
  then have "handle e lr evs = Inr s"
    by (simp add: handle_def eng)
  then show ?thesis
    by (simp add: client_log_def upstream_def s_def plain_headers_def)
qed

theorem empty_outcome_200_witness:
  "url_parse blocking_env (url sample_post) \<noteq> None
   \<and> startsWith (url sample_post) ''http''
   \<and> fst (requestPatchingProvider blocking_env (headers sample_post) (url sample_post)) = Empty
   \<and> client_log (handle blocking_env sample_post [Response sample_ok, RemoteEnd]) =
           Some [WriteHead 200 ''OK''
                   [(''Content-Type'', ''text/plain''), (''Server'', ''Violentproxy Proxy Server'')],
                 EndRes]
   \<and> upstream (handle blocking_env sample_post [Response sample_ok, RemoteEnd]) = None"
proof -
  have h0: "url_parse blocking_env (url sample_post) \<noteq> None"
    by (simp add: sample_defs blocking_env_def sample_post_def)
  have h1: "startsWith (url sample_post) ''http''"
    by (simp add: sample_post_def request_defs)
  have h2: "fst (requestPatchingProvider blocking_env (headers sample_post) (url sample_post)) = Empty"
    by (simp add: sample_defs blocking_env_def sample_post_def)
  from empty_outcome_200 [OF h0 h1 h2, of "[Response sample_ok, RemoteEnd]"] h0 h1 h2
  show ?thesis by simp
qed


section \<open>The upstream request\<close>

text \<open>
  Claim C4, as amended. For every request with the result \<open>Allow\<close> for which the engine
  gets to make the upstream request (\<open>url.parse\<close> and the \<open>request\<close> call return), the
  request is made with the \<open>https\<close> module when the protocol of the parsed target is
  \<open>https:\<close> and with the \<open>http\<close> module otherwise; its options are the parsed target and
  the client's header object as the request provider left it, with \<open>accept-encoding\<close> set
  to \<open>gzip, deflate\<close>; no method is assigned to the options; and the request is ended at
  once with nothing written to it.
\<close>

theorem upstream_request_shape:
  assumes "fst (requestPatchingProvider e (headers lr) (url lr)) = Allow"
    and "upstream (engine e lr) \<noteq> None"
  shows "\<exists>opts. url_parse e (url lr) = Some opts
       \<and> upstream (engine e lr) =
           Some \<lparr>transport = (if protocol opts = Some ''https:'' then Https else Http),
                 options = \<lparr>parsed = opts,
                            options_headers = AList.update ''accept-encoding'' ''gzip, deflate''
                               (snd (requestPatchingProvider e (headers lr) (url lr))),
                            options_method = None\<rparr>,
                 written = [],
                 ended = True,
                 aborted = False\<rparr>"
proof -
  obtain h where p: "requestPatchingProvider e (headers lr) (url lr) = (Allow, h)"
    using assms(1) by (cases "requestPatchingProvider e (headers lr) (url lr)") simp
  show ?thesis
    using assms(2)
    by (auto simp: engine_def proxy_request_def p Let_def upstream_def Allow_def Empty_def
        response_defs split: option.splits if_splits sum.splits)
qed

theorem upstream_request_shape_witness:
  "fst (requestPatchingProvider sample_env (headers sample_post) (url sample_post)) = Allow
   \<and> upstream (engine sample_env sample_post) \<noteq> None
   \<and> (\<exists>opts. url_parse sample_env (url sample_post) = Some opts
       \<and> upstream (engine sample_env sample_post) =
           Some \<lparr>transport = (if protocol opts = Some ''https:'' then Https else Http),
                 options = \<lparr>parsed = opts,
                            options_headers = [(''host'', ''example.test''), (''accept-encoding'', ''gzip, deflate'')],
                            options_method = None\<rparr>,
                 written = [],
                 ended = True,
                 aborted = False\<rparr>)"
proof -
  have h1: "fst (requestPatchingProvider sample_env (headers sample_post) (url sample_post)) = Allow"
    by (simp add: sample_defs)
  have h2: "upstream (engine sample_env sample_post) \<noteq> None"
    by (simp add: engine_defs sample_defs sample_post_def request_defs observer_defs)
  have hdrs: "AList.update ''accept-encoding'' ''gzip, deflate''
        (snd (requestPatchingProvider sample_env (headers sample_post) (url sample_post)))
      = [(''host'', ''example.test''), (''accept-encoding'', ''gzip, deflate'')]"
    by (simp add: sample_defs sample_post_def)
  from upstream_request_shape [OF h1 h2] h1 h2
  show ?thesis
    by (simp add: hdrs)
qed

text \<open>
  Claim C4 as stated fails: for a POST request with the body \<open>a=1\<close>, the options of the
  upstream request have no method and nothing is written to the upstream request.
\<close>

theorem method_and_body_not_forwarded:
  "http_method sample_post = ''POST''
   \<and> body sample_post = ''a=1''
   \<and> map_option (options_method \<circ> options) (upstream (engine sample_env sample_post)) = Some None
   \<and> map_option written (upstream (engine sample_env sample_post)) = Some []"
  by (simp add: engine_defs sample_defs sample_post_def request_defs observer_defs)

text \<open>An example of the \<open>request\<close> call throwing: the target starts with \<open>http\<close>, its
  protocol is \<open>httpx:\<close>, and the \<open>http\<close> module refuses it.\<close>

lemma wrong_protocol_ends_process:
  "handle sample_env sample_httpx [] = Inl RequestRejected"
  by (simp add: engine_defs sample_defs sample_httpx_def request_defs)

section \<open>Targets that are not proxied\<close>







section \<open>The head written by finalize\<close>

text \<open>
  Claim C9, as amended. Every call of \<open>finalize\<close> on a client response whose head is not
  written yet writes one head, one body and one end. The head carries the status code and
  the reason phrase of the upstream response. Its header object is the one the response
  provider left behind, with the property named exactly \<open>content-encoding\<close> set to
  \<open>identity\<close> and the property named exactly \<open>content-length\<close> deleted, whatever the
  provider wrote under those two names; every other property is as the provider left it.
\<close>

theorem finalize_headers:
  assumes "\<not> headersSent (localRes s)"
  shows "\<exists>s' hs. finalize e s r u t = Inr s'
      \<and> localRes s' =
          localRes s @ [WriteHead (statusCode r) (statusMessage r) hs,
                        Write (fst (responsePatchingProvider e (remote_headers r) u t)), EndRes]
      \<and> map_of hs =
          ((map_of (snd (responsePatchingProvider e (remote_headers r) u t)))
             (''content-encoding'' \<mapsto> ''identity'')) (''content-length'' := None)
      \<and> ''content-length'' \<notin> fst ` set hs"
proof -
  obtain t' h where p: "responsePatchingProvider e (remote_headers r) u t = (t', h)"
    by (cases "responsePatchingProvider e (remote_headers r) u t")
  let ?hs = "AList.delete ''content-length'' (AList.update ''content-encoding'' ''identity'' h)"
  let ?s' = "s\<lparr>remoteRes := Some (r\<lparr>remote_headers := ?hs\<rparr>),
                localRes := localRes s @ [WriteHead (statusCode r) (statusMessage r) ?hs, Write t', EndRes]\<rparr>"
  have "finalize e s r u t = Inr ?s'"
    using assms by (simp add: finalize_def p Let_def writeHead_def write_body_def end_response_def)
  moreover have "map_of ?hs = ((map_of h)(''content-encoding'' \<mapsto> ''identity'')) (''content-length'' := None)"
    by (simp add: AList.delete_conv' AList.update_conv')
  moreover have "''content-length'' \<notin> fst ` set ?hs"
    by (simp add: AList.delete_notin_dom)
  ultimately show ?thesis
    by (simp add: p)
qed

theorem finalize_headers_witness:
  "\<not> headersSent (localRes \<lparr>localReq = sample_get, localRes = [], request = None, remoteRes = Some sample_ok,
        data = Joined ''hi'', unzip_queue = []\<rparr>)
   \<and> (\<exists>s' hs. finalize tampering_env \<lparr>localReq = sample_get, localRes = [], request = None,
          remoteRes = Some sample_ok, data = Joined ''hi'', unzip_queue = []\<rparr> sample_ok ''http://example.test/'' ''hi''
        = Inr s'
      \<and> localRes s' = [WriteHead 200 ''OK'' hs, Write ''hi'', EndRes]
      \<and> map_of hs ''content-encoding'' = Some ''identity''
      \<and> map_of hs ''content-length'' = None
      \<and> map_of hs ''x-patched'' = Some ''yes''
      \<and> map_of hs ''content-type'' = Some ''text/html''
      \<and> ''content-length'' \<notin> fst ` set hs)"
proof -
  let ?s = "\<lparr>localReq = sample_get, localRes = [], request = None, remoteRes = Some sample_ok,
        data = Joined ''hi'', unzip_queue = []\<rparr>"
  have h: "\<not> headersSent (localRes ?s)"
    by (simp add: headersSent_def)
  have provider: "responsePatchingProvider tampering_env (remote_headers sample_ok) ''http://example.test/'' ''hi''
      = (''hi'', [(''content-type'', ''text/html''), (''content-length'', ''1''),
                  (''content-encoding'', ''br''), (''x-patched'', ''yes'')])"
    by (simp add: tampering_env_def sample_env_def sample_ok_def)
  have status: "statusCode sample_ok = 200" "statusMessage sample_ok = ''OK''"
    by (simp_all add: sample_ok_def)
  from finalize_headers [OF h, of tampering_env sample_ok "''http://example.test/''" "''hi''"]
  obtain s' hs where
    "finalize tampering_env ?s sample_ok ''http://example.test/'' ''hi'' = Inr s'"
    "localRes s' = [WriteHead 200 ''OK'' hs, Write ''hi'', EndRes]"
    "map_of hs = ((map_of [(''content-type'', ''text/html''), (''content-length'', ''1''),
                  (''content-encoding'', ''br''), (''x-patched'', ''yes'')])
             (''content-encoding'' \<mapsto> ''identity'')) (''content-length'' := None)"
    "''content-length'' \<notin> fst ` set hs"
    unfolding provider status by auto
  then show ?thesis
    using h by (intro conjI exI [of _ s'] exI [of _ hs]) simp_all
qed

text \<open>
  Claim C9 as stated fails: the engine names the two properties in lower case, and a name
  with other letter case is another property. A response provider that writes
  \<open>Content-Length\<close> and \<open>Content-Encoding\<close> leaves both in the head written to the client,
  so the header set of the client response has a content-length entry, and a
  content-encoding entry that is not \<open>identity\<close>.
\<close>

theorem capital_names_pass_through:
  "client_log (handle capitals_env sample_get [Response sample_ok, RemoteData ''hi'', RemoteEnd]) =
     Some [WriteHead 200 ''OK''
             [(''content-type'', ''text/html''), (''Content-Encoding'', ''gzip''),
              (''Content-Length'', ''1''), (''content-encoding'', ''identity'')],
           Write ''hi'', EndRes]
   \<and> spec_has_header ''content-length''
         [(''content-type'', ''text/html''), (''Content-Encoding'', ''gzip''),
          (''Content-Length'', ''1''), (''content-encoding'', ''identity'')]"
  by (simp add: engine_defs sample_defs capitals_env_def request_defs observer_defs response_defs
      spec_has_header_def lower_def)

text \<open>An example: what the provider writes under the two exact names is replaced, what
  it writes under another name is kept.\<close>

lemma tampering_provider_overridden:
  "client_log (handle tampering_env sample_get [Response sample_ok, RemoteData ''hi'', RemoteEnd]) =
     Some [WriteHead 200 ''OK''
             [(''content-type'', ''text/html''), (''content-encoding'', ''identity''), (''x-patched'', ''yes'')],
           Write ''hi'', EndRes]"
  by (simp add: engine_defs sample_defs tampering_env_def request_defs observer_defs response_defs)

section \<open>One decompression for both encodings\<close>

text \<open>
  Claim C10. For the same chunks, a response labelled \<open>gzip\<close> and a response labelled
  \<open>deflate\<close> hand the same bytes (the concatenation of the chunks) to the same routine,
  \<open>zlib.unzip\<close>. When it fails, both get the same response: status 500, reason "Data
  Stream Parse Error" and the fixed plain-text body. When it succeeds, both are finalized
  with the same decoded text. The label is read nowhere else by the engine: the two results
  are given by one and the same expression in the response.
\<close>

theorem gzip_deflate_same_routine:
  assumes "upstream (engine e lr) \<noteq> None"
    and "map_of (remote_headers r1) ''content-encoding'' = Some ''gzip''"
    and "map_of (remote_headers r2) ''content-encoding'' = Some ''deflate''"
  shows "pending_unzip (handle e lr (Response r1 # map RemoteData chunks @ [RemoteEnd])) = Some [concat chunks]
       \<and> pending_unzip (handle e lr (Response r2 # map RemoteData chunks @ [RemoteEnd])) = Some [concat chunks]
       \<and> client_log (handle e lr (Response r1 # map RemoteData chunks @ [RemoteEnd, UnzipDone])) =
           (case unzip e (concat chunks) of
              None \<Rightarrow>
                Some [WriteHead 500 ''Data Stream Parse Error''
                        [(''Content-Type'', ''text/plain''), (''Server'', ''Violentproxy Proxy Server'')],
                      Write ''Violentproxy could not complete your request because there is a data stream parsing error.'',
                      EndRes]
            | Some result \<Rightarrow>
                Some [WriteHead (statusCode r1) (statusMessage r1)
                        (AList.delete ''content-length'' (AList.update ''content-encoding'' ''identity''
                           (snd (responsePatchingProvider e (remote_headers r1) (url lr) (toString e result))))),
                      Write (fst (responsePatchingProvider e (remote_headers r1) (url lr) (toString e result))),
                      EndRes])
       \<and> client_log (handle e lr (Response r2 # map RemoteData chunks @ [RemoteEnd, UnzipDone])) =
           (case unzip e (concat chunks) of
              None \<Rightarrow>
                Some [WriteHead 500 ''Data Stream Parse Error''
                        [(''Content-Type'', ''text/plain''), (''Server'', ''Violentproxy Proxy Server'')],
                      Write ''Violentproxy could not complete your request because there is a data stream parsing error.'',
                      EndRes]
            | Some result \<Rightarrow>
                Some [WriteHead (statusCode r2) (statusMessage r2)
                        (AList.delete ''content-length'' (AList.update ''content-encoding'' ''identity''
                           (snd (responsePatchingProvider e (remote_headers r2) (url lr) (toString e result))))),
                      Write (fst (responsePatchingProvider e (remote_headers r2) (url lr) (toString e result))),
                      EndRes])"
proof -
  from assms(1) obtain rq where "upstream (engine e lr) = Some rq" by auto
  then obtain s where s: "engine e lr = Inr s" "request s = Some rq"
    by (rule upstream_engine)
  have c: "compressed r1" "compressed r2"
    using assms(2,3) by (simp_all add: compressed_def)
  note facts = engine_proxying(2,5) [OF s]
  have q: "pending_unzip (handle e lr (Response r # map RemoteData chunks @ [RemoteEnd])) = Some [concat chunks]"
    if "compressed r" for r
    by (simp add: handle_unzipped(1) [OF s that] pending_unzip_def)
  have l: "client_log (handle e lr (Response r # map RemoteData chunks @ [RemoteEnd, UnzipDone])) =
           (case unzip e (concat chunks) of
              None \<Rightarrow>
                Some [WriteHead 500 ''Data Stream Parse Error''
                        [(''Content-Type'', ''text/plain''), (''Server'', ''Violentproxy Proxy Server'')],
                      Write ''Violentproxy could not complete your request because there is a data stream parsing error.'',
                      EndRes]
            | Some result \<Rightarrow>
                Some [WriteHead (statusCode r) (statusMessage r)
                        (AList.delete ''content-length'' (AList.update ''content-encoding'' ''identity''
                           (snd (responsePatchingProvider e (remote_headers r) (url lr) (toString e result))))),
                      Write (fst (responsePatchingProvider e (remote_headers r) (url lr) (toString e result))),
                      EndRes])"
    if "compressed r" for r
    using facts
    by (simp add: handle_unzipped(2) [OF s that] unzip_callback_def client_log_def finalize_def Let_def
        response_defs split: option.splits prod.splits)
  show ?thesis
    using q [OF c(1)] q [OF c(2)] l [OF c(1)] l [OF c(2)] by simp
qed

theorem gzip_deflate_same_routine_witness:
  "upstream (engine sample_env sample_get) \<noteq> None
   \<and> map_of (remote_headers sample_gzip) ''content-encoding'' = Some ''gzip''
   \<and> map_of (remote_headers sample_deflate) ''content-encoding'' = Some ''deflate''
   \<and> pending_unzip (handle sample_env sample_get (Response sample_gzip # map RemoteData [''Z:'', ''hi''] @ [RemoteEnd]))
       = Some [''Z:hi'']
   \<and> pending_unzip (handle sample_env sample_get (Response sample_deflate # map RemoteData [''Z:'', ''hi''] @ [RemoteEnd]))
       = Some [''Z:hi'']
   \<and> client_log (handle sample_env sample_get (Response sample_gzip # map RemoteData [''Z:'', ''hi''] @ [RemoteEnd, UnzipDone]))
       = Some [WriteHead 200 ''OK'' [(''content-encoding'', ''identity'')], Write ''hi'', EndRes]
   \<and> client_log (handle sample_env sample_get (Response sample_deflate # map RemoteData [''Z:'', ''hi''] @ [RemoteEnd, UnzipDone]))
       = Some [WriteHead 200 ''OK'' [(''content-encoding'', ''identity'')], Write ''hi'', EndRes]
   \<and> unzip sample_env (concat [''bro'', ''ken'']) = None
   \<and> client_log (handle sample_env sample_get (Response sample_gzip # map RemoteData [''bro'', ''ken''] @ [RemoteEnd, UnzipDone]))
       = Some [WriteHead 500 ''Data Stream Parse Error''
                 [(''Content-Type'', ''text/plain''), (''Server'', ''Violentproxy Proxy Server'')],
               Write ''Violentproxy could not complete your request because there is a data stream parsing error.'',
               EndRes]
   \<and> client_log (handle sample_env sample_get (Response sample_deflate # map RemoteData [''bro'', ''ken''] @ [RemoteEnd, UnzipDone]))
       = Some [WriteHead 500 ''Data Stream Parse Error''
                 [(''Content-Type'', ''text/plain''), (''Server'', ''Violentproxy Proxy Server'')],
               Write ''Violentproxy could not complete your request because there is a data stream parsing error.'',
               EndRes]"
proof -
  have h1: "upstream (engine sample_env sample_get) \<noteq> None"
    by (simp add: engine_defs sample_defs request_defs observer_defs)
  have h2: "map_of (remote_headers sample_gzip) ''content-encoding'' = Some ''gzip''"
    by (simp add: sample_gzip_def)
  have h3: "map_of (remote_headers sample_deflate) ''content-encoding'' = Some ''deflate''"
    by (simp add: sample_deflate_def)
  have bad: "unzip sample_env (concat [''bro'', ''ken'']) = None"
    by (simp add: sample_defs request_defs)
  from gzip_deflate_same_routine [OF h1 h2 h3, of "[''Z:'', ''hi'']"]
    gzip_deflate_same_routine [OF h1 h2 h3, of "[''bro'', ''ken'']"] h1 h2 h3 bad
  show ?thesis
    by (simp add: sample_defs sample_gzip_def sample_deflate_def request_defs head_tag_def fold_case_def)
qed


section \<open>The upstream server aborts\<close>

text \<open>When the head of the upstream response has arrived, any number of data chunks
  later the \<open>aborted\<close> listener writes the 502 response as the first and only response:
  nothing was written before it, and whatever events follow, either the process ends or the
  calls on the client response stay exactly these three.\<close>

lemma abort_after_head:
  assumes "upstream (engine e lr) \<noteq> None"
  shows "client_log (handle e lr (Response r # map RemoteData chunks)) = Some []"
    and "client_log (handle e lr (Response r # map RemoteData chunks @ RemoteAborted # evs)) = None
       \<or> client_log (handle e lr (Response r # map RemoteData chunks @ RemoteAborted # evs)) =
           Some [WriteHead 502 ''Broken Pipe / Remote Server Disconnected''
                   [(''Content-Type'', ''text/plain''), (''Server'', ''Violentproxy Proxy Server'')],
                 Write ''Violentproxy could not complete your request because remote server closed the connection.'',
                 EndRes]"
proof -
  from assms obtain rq where "upstream (engine e lr) = Some rq" by auto
  then obtain s where s: "engine e lr = Inr s" "request s = Some rq"
    by (rule upstream_engine)
  have empty: "localRes s = []" by (rule engine_proxying(2) [OF s])
  let ?s1 = "s\<lparr>remoteRes := Some r, data := Chunks chunks\<rparr>"
  let ?ops = "[WriteHead 502 ''Broken Pipe / Remote Server Disconnected''
                   [(''Content-Type'', ''text/plain''), (''Server'', ''Violentproxy Proxy Server'')],
                 Write ''Violentproxy could not complete your request because remote server closed the connection.'',
                 EndRes]"
  show "client_log (handle e lr (Response r # map RemoteData chunks)) = Some []"
    using handle_body [OF s, of r chunks "[]"] by (simp add: client_log_def empty)
  have step: "dispatch e RemoteAborted ?s1 = Inr (?s1\<lparr>localRes := ?ops\<rparr>)"
    by (simp add: dispatch_def on_aborted_def empty response_defs)
  have run: "handle e lr (Response r # map RemoteData chunks @ RemoteAborted # evs)
      = run e (?s1\<lparr>localRes := ?ops\<rparr>) evs"
    by (simp add: handle_body [OF s] step)
  show "client_log (handle e lr (Response r # map RemoteData chunks @ RemoteAborted # evs)) = None
       \<or> client_log (handle e lr (Response r # map RemoteData chunks @ RemoteAborted # evs)) = Some ?ops"
  proof (cases "run e (?s1\<lparr>localRes := ?ops\<rparr>) evs")
    case (Inl f)
    then show ?thesis by (simp add: run client_log_def)
  next
    case (Inr s')
    have "localRes s' = localRes (?s1\<lparr>localRes := ?ops\<rparr>)"
      by (rule run_after_response [OF _ Inr]) (simp add: headersSent_def)
    then show ?thesis by (simp add: run Inr client_log_def)
  qed
qed

text \<open>
  Claim C6 at its failing input. The \<open>aborted\<close> listener is registered on the upstream
  response, which exists only once its head has arrived. When the upstream server closes
  the connection before the head, the upstream request signals \<open>error\<close>, for which the
  engine has no listener: the process ends and the client never gets the 502 response. On
  the same request, an abort after the head and a data chunk does get it.
\<close>

theorem abort_before_head_no_502:
  "upstream (engine sample_env sample_post) \<noteq> None
   \<and> client_log (handle sample_env sample_post [RequestError]) = None
   \<and> client_log (handle sample_env sample_post [Response sample_ok, RemoteData ''<html>'', RemoteAborted]) =
       Some [WriteHead 502 ''Broken Pipe / Remote Server Disconnected''
               [(''Content-Type'', ''text/plain''), (''Server'', ''Violentproxy Proxy Server'')],
             Write ''Violentproxy could not complete your request because remote server closed the connection.'',
             EndRes]"
  by (simp add: engine_defs sample_defs sample_post_def request_defs observer_defs response_defs)

section \<open>How many responses a request gets\<close>

text \<open>
  Claim C1 at its failing input. The listeners for \<open>end\<close>, \<open>error\<close> and \<open>aborted\<close> each
  write a complete response and none looks whether one was written. When the upstream
  response signals \<open>aborted\<close> and then \<open>end\<close>, or \<open>aborted\<close> and then \<open>error\<close>, the first
  listener writes the 502 response and the second calls \<open>writeHead\<close> again: the call
  throws and the process ends.
\<close>

theorem second_write_ends_process:
  "client_log (handle sample_env sample_get [Response sample_ok, RemoteData ''<html>'', RemoteAborted]) =
       Some [WriteHead 502 ''Broken Pipe / Remote Server Disconnected''
               [(''Content-Type'', ''text/plain''), (''Server'', ''Violentproxy Proxy Server'')],
             Write ''Violentproxy could not complete your request because remote server closed the connection.'',
             EndRes]
   \<and> handle sample_env sample_get [Response sample_ok, RemoteData ''<html>'', RemoteAborted, RemoteEnd]
       = Inl HeadersAlreadySent
   \<and> handle sample_env sample_get [Response sample_ok, RemoteData ''<html>'', RemoteAborted, RemoteError]
       = Inl HeadersAlreadySent"
  by (simp add: engine_defs sample_defs request_defs observer_defs response_defs)

end
